theory Spec2Isabelle
  imports Complex_Main "HOL-Library.Word"
begin

section \<open>Host-language values\<close>

text \<open>
  A value thrown inside an async handler. The handlers only ask whether the value is an
  \<open>Error\<close> instance (then its message is shown) or something else (an event object, a
  rejected promise's payload).
\<close>

datatype js_error = Error string | NonError

text \<open>Truthiness of a \<open>string | null\<close>: \<open>null\<close> and the empty string are falsy.\<close>

fun truthy :: "string option \<Rightarrow> bool" where
  "truthy None = False"
| "truthy (Some s) = (s \<noteq> [])"

text \<open>\<open>a || b\<close> on strings.\<close>

definition or_else :: "string \<Rightarrow> string \<Rightarrow> string" where
  "or_else a b = (if a \<noteq> [] then a else b)"

text \<open>A template literal prints an absent value as the word \<open>undefined\<close>.\<close>

fun template_string :: "string option \<Rightarrow> string" where
  "template_string None = ''undefined''"
| "template_string (Some s) = s"

text \<open>\<open>s.split(c)\<close> for a one-character separator, and \<open>xs[i]\<close> read as an option.\<close>

fun split :: "char \<Rightarrow> string \<Rightarrow> string list" where
  "split c [] = [[]]"
| "split c (x # xs) =
     (if x = c then [] # split c xs
      else (case split c xs of [] \<Rightarrow> [[x]] | y # ys \<Rightarrow> (x # y) # ys))"

fun index :: "'a list \<Rightarrow> nat \<Rightarrow> 'a option" where
  "index [] i = None"
| "index (x # xs) 0 = Some x"
| "index (x # xs) (Suc i) = index xs i"

text \<open>Decimal printing of a non-negative integer, as a template literal prints a pixel count.\<close>

definition digit :: "nat \<Rightarrow> char" where
  "digit d = ''0123456789'' ! d"

fun show_nat :: "nat \<Rightarrow> string" where
  "show_nat n = (if n < 10 then [digit n] else show_nat (n div 10) @ [digit (n mod 10)])"

declare show_nat.simps [simp del]

text \<open>
  \<open>s.trim()\<close>: strips white space and line terminators from both ends. Characters are
  8-bit code units here, so the white space is tab, line feed, vertical tab, form feed,
  carriage return, space and no-break space.
\<close>

definition is_space :: "char \<Rightarrow> bool" where
  "is_space c = (of_char c \<in> {9, 10, 11, 12, 13, 32, 160 :: nat})"

definition trim :: "string \<Rightarrow> string" where
  "trim s = rev (dropWhile is_space (rev (dropWhile is_space s)))"

section \<open>Content parts, files and the external services\<close>

text \<open>
  A part of the client library, as far as the program builds and reads it: a text part
  \<open>{ text }\<close> or an image part \<open>{ inlineData: { data, mimeType } }\<close>. Both fields of
  \<open>inlineData\<close> are optional in the library's type.
\<close>

record inline_data =
  data :: "string option"
  mimeType :: "string option"

datatype part = Text string | InlineData inline_data

fun is_image :: "part \<Rightarrow> bool" where
  "is_image (InlineData d) = True"
| "is_image (Text t) = False"

text \<open>A blob and a file: a MIME type (and a name) with the bytes.\<close>

record blob =
  blob_type :: string
  blob_bytes :: "nat list"

record js_file =
  file_name :: string
  file_type :: string
  file_bytes :: "nat list"

text \<open>
  The argument of \<open>ai.models.generateContent\<close> and the fields of its answer that the
  program reads: \<open>candidates\<close>, each with an optional \<open>content\<close> holding optional
  \<open>parts\<close>, and the \<open>text\<close> accessor.
\<close>

datatype modality = IMAGE | TEXT

record generate_request =
  model :: string
  contents :: "part list"
  responseModalities :: "modality list option"

datatype content = Content (parts: "part list option")

datatype candidate = Candidate (content: "content option")

record generate_response =
  candidates :: "candidate list option"
  response_text :: "string option"

text \<open>
  What the browser and the generation service answer. \<open>readAsDataURL\<close> is the data URL a
  \<open>FileReader\<close> yields for a file; \<open>getImageDimensions\<close> decodes an image source and
  is \<open>None\<close> when the image fires \<open>onerror\<close>; \<open>fetch\<close> and
  \<open>generateContent\<close> either throw or return; \<open>typeErrorMessage\<close> is the message
  of the \<open>TypeError\<close> the engine raises when the named property is read on
  \<open>undefined\<close>. Reading a file is taken to complete: the promise in
  \<open>fileToGenerativePart\<close> has no rejecting path.
\<close>

record env =
  readAsDataURL :: "js_file \<Rightarrow> string"
  getImageDimensions :: "string \<Rightarrow> (nat \<times> nat) option"
  fetch :: "string \<Rightarrow> js_error + blob"
  generateContent :: "generate_request \<Rightarrow> js_error + generate_response"
  typeErrorMessage :: "string \<Rightarrow> string"

definition fileToGenerativePart :: "env \<Rightarrow> js_file \<Rightarrow> part" where
  "fileToGenerativePart e f =
     InlineData \<lparr>data = index (split CHR '','' (readAsDataURL e f)) 1,
                 mimeType = Some (file_type f)\<rparr>"

section \<open>System prompts\<close>

definition MODEL_SHOT_SYSTEM_PROMPT :: string where
  \<open>MODEL_SHOT_SYSTEM_PROMPT =
    ''\<newline>'' @
    ''## ROLE & MISSION ##\<newline>'' @
    ''You are a world-class AI Creative Director known as "The Alchemist." Your purpose is to generate stunning lookbook photographs by interpreting creative direction from multiple sources.\<newline>'' @
    ''\<newline>'' @
    ''## ZERO-TOLERANCE POLICY ON CONTENT COPYING ##\<newline>'' @
    ''THIS IS THE MOST IMPORTANT RULE. FAILURE TO FOLLOW IT IS A COMPLETE FAILURE OF THE TASK.\<newline>'' @
    ''\<newline>'' @
    ''- The image provided as 'AESTHETIC INSPIRATION PHOTO' is for STYLE, MOOD, AND LIGHTING ONLY.\<newline>'' @
    ''- It is ABSOLUTELY PROHIBITED to copy, replicate, transfer, or be inspired by any PEOPLE, FACES, or specific identifiable OBJECTS from the 'AESTHETIC INSPIRATION PHOTO'.\<newline>'' @
    ''- The generated human model MUST BE A COMPLETELY NEW, UNIQUE, AND ARTIFICIALLY GENERATED PERSON. They must not look like the person in the inspiration photo. Any resemblance is a failure.\<newline>'' @
    ''\<newline>'' @
    ''## HIERARCHY OF CREATIVE DIRECTION ##\<newline>'' @
    ''You will be given multiple inputs. You MUST process them in this order of priority:\<newline>'' @
    ''\<newline>'' @
    ''1.  **HERO ITEM PHOTO:** This is the product to be featured. It is sacred.\<newline>'' @
    ''    -   **Hero Item Integrity:** You MUST NOT alter the item's fundamental shape, type, or design. A t-shirt must remain a t-shirt. Preserve its original form factor perfectly.\<newline>'' @
    ''    -   The item MUST be extracted perfectly and placed realistically on the generated model.\<newline>'' @
    ''    -   The lighting on the Hero Item MUST match the final scene's lighting.\<newline>'' @
    ''\<newline>'' @
    ''2.  **CREATIVE BRIEF (Text Prompt):** If provided, this text dictates the **subject and setting** of the scene (e.g., "a model in a moody, dark library"). This overrides any subject/setting from the inspiration photo.\<newline>'' @
    ''\<newline>'' @
    ''3.  **AESTHETIC INSPIRATION PHOTO:** Use this **ONLY** as an 'Aesthetic Filter' for the final image's *feel*.\<newline>'' @
    ''    -   **IF a Creative Brief exists:** Apply the inspiration photo's color palette, lighting, mood, and photographic genre to the scene described in the text prompt. For example, if the inspiration is a sunny beach, but the prompt is "dark library," you MUST generate a dark library that has the *warm light quality and color grading* of the beach photo. **DO NOT generate a beach.**\<newline>'' @
    ''    -   **IF NO Creative Brief exists:** You may use the general setting from the inspiration photo (e.g., a forest, a city street) but you still MUST NOT copy any people, faces, or specific objects from it.\<newline>'' @
    ''\<newline>'' @
    ''## FINAL OUTPUT ##\<newline>'' @
    ''-   The output must be a single, hyper-realistic, professional-quality photograph.\<newline>'' @
    ''-   The generated model should have a consistent and realistic appearance, like a professional fashion model.\<newline>''\<close>

definition PRODUCT_SHOT_SYSTEM_PROMPT :: string where
  \<open>PRODUCT_SHOT_SYSTEM_PROMPT =
    ''\<newline>'' @
    ''## ROLE & MISSION ##\<newline>'' @
    ''You are a world-class AI Creative Director known as "The Alchemist." Your purpose is to generate stunning product photographs.\<newline>'' @
    ''\<newline>'' @
    ''## CORE DIRECTIVE: PRODUCT SHOT ##\<newline>'' @
    ''- You MUST generate a 'product shot' or 'still life' photograph.\<newline>'' @
    ''- CRITICAL: DO NOT generate any human model, person, hand, or any body part. The image must be completely devoid of people.\<newline>'' @
    ''- The 'HERO ITEM PHOTO' must be the sole focus, placed in an elegant and appropriate setting that complements its style.\<newline>'' @
    ''\<newline>'' @
    ''## HIERARCHY OF CREATIVE DIRECTION ##\<newline>'' @
    ''1.  **HERO ITEM PHOTO:** This is the product to be featured. It is sacred. Preserve its original form factor perfectly. The lighting on the Hero Item MUST match the final scene's lighting.\<newline>'' @
    ''2.  **AESTHETIC INSPIRATION PHOTO:** Use this ONLY as an 'Aesthetic Filter' for the final image's feel (color palette, lighting, mood, photographic genre). DO NOT copy any objects from it.\<newline>'' @
    ''3.  **CREATIVE BRIEF (Text Prompt):** If provided, this text dictates the setting for the product (e.g., "placed on a rustic wooden table" or "on a silk cloth").\<newline>'' @
    ''\<newline>'' @
    ''## FINAL OUTPUT ##\<newline>'' @
    ''- The output must be a single, hyper-realistic, professional-quality photograph of the product.\<newline>''\<close>

text \<open>
  The editing-mode instruction is a template: the active system prompt, a fixed text, the
  width, \<open>x\<close>, the height, and a fixed text.
\<close>

definition editingPrompt_before :: string where
  \<open>editingPrompt_before =
    ''\<newline>'' @
    ''\<newline>'' @
    ''## EDITING MODE: AESTHETIC TRANSFORMATION ##\<newline>'' @
    ''You are now in editing mode. Your task is to apply a NEW creative direction to a previously generated image.\<newline>'' @
    ''\<newline>'' @
    ''**HIERARCHY OF EDITS (MOST IMPORTANT FIRST):**\<newline>'' @
    ''\<newline>'' @
    ''1.  **AESTHETIC INSPIRATION PHOTO:** THIS IS YOUR #1 PRIORITY. If an 'AESTHETIC INSPIRATION PHOTO' is provided, you MUST completely transform the 'IMAGE TO EDIT' to match its style, mood, color palette, lighting, and even the general setting. This overrides the original image's aesthetic entirely. (This rule is ignored if you are in Product Shot mode, where the setting is guided by the Creative Brief).\<newline>'' @
    ''\<newline>'' @
    ''2.  **CREATIVE BRIEF (Text):** This text dictates the scene and action. It works with the 'AESTHETIC INSPIRATION PHOTO' to define the new scene.\<newline>'' @
    ''\<newline>'' @
    ''3.  **PRESERVATION OF IDENTITY:** While transforming the aesthetic, you MUST preserve the face, body, and identity of the model from the 'IMAGE TO EDIT'. DO NOT CHANGE THE PERSON. (This rule is ignored if you are in Product Shot mode).\<newline>'' @
    ''\<newline>'' @
    ''4.  **HERO ITEM INTEGRITY:** The 'HERO ITEM' must remain accurate, using the 'HERO ITEM REFERENCE' as a guide.\<newline>'' @
    ''\<newline>'' @
    ''5.  **ASPECT RATIO LOCK:** The output image MUST EXACTLY MATCH the aspect ratio of the 'IMAGE TO EDIT' (original dimensions were ''\<close>

definition editingPrompt_after :: string where
  \<open>editingPrompt_after =
    ''px).\<newline>'' @
    ''\<newline>'' @
    ''**IGNORE THE ORIGINAL AESTHETIC:**\<newline>'' @
    ''You are not making a 'subtle improvement'. You are performing a complete aesthetic overhaul based on the new inputs. The original 'IMAGE TO EDIT' is just a canvas for the model's identity and the hero item.\<newline>''\<close>

definition editingPrompt :: "string \<Rightarrow> nat \<Rightarrow> nat \<Rightarrow> string" where
  "editingPrompt activeSystemPrompt width height =
     activeSystemPrompt @ editingPrompt_before @ show_nat width @ ''x'' @ show_nat height @
     editingPrompt_after"

section \<open>Start-up: the service client\<close>

text \<open>
  The module creates the client once, inside a \<open>try\<close>. The constructor of the client
  library is not part of the program; it is a parameter here, and it either throws (the
  program's reading of a missing or invalid key) or returns a client.
\<close>

datatype GoogleGenAI = GoogleGenAI "string option"

record globals =
  ai :: "GoogleGenAI option"
  apiKeyError :: "string option"

definition startup :: "(string option \<Rightarrow> js_error + GoogleGenAI) \<Rightarrow> string option \<Rightarrow> globals" where
  \<open>startup new_GoogleGenAI API_KEY =
     (case new_GoogleGenAI API_KEY of
        Inr client \<Rightarrow> \<lparr>ai = Some client, apiKeyError = None\<rparr>
      | Inl e \<Rightarrow>
          \<lparr>ai = None,
           apiKeyError = Some ''The AI Alchemist is not configured correctly. Please contact the administrator to resolve this issue.''\<rparr>)\<close>

section \<open>The component's state\<close>

datatype shot_type = Model | Product

record app_state =
  heroItem :: "js_file option"
  inspirationPhoto :: "js_file option"
  stylePrompt :: string
  generatedImage :: "string option"
  isLoading :: bool
  error :: "string option"
  itemCategory :: "string option"
  isIdentifying :: bool
  isDownloadMenuOpen :: bool
  shotType :: shot_type

definition accessoryCategories :: "string list" where
  "accessoryCategories = [''Watch'', ''Bracelet'', ''Ring'', ''Necklace'', ''Earrings'', ''Handbag'']"

section \<open>Composing the generation request\<close>

definition isProductShot :: "app_state \<Rightarrow> bool" where
  "isProductShot s =
     (shotType s = Product \<and> truthy (itemCategory s) \<and>
      (case itemCategory s of None \<Rightarrow> False | Some c \<Rightarrow> c \<in> set accessoryCategories))"

definition activeSystemPrompt :: "app_state \<Rightarrow> string" where
  "activeSystemPrompt s =
     (if isProductShot s then PRODUCT_SHOT_SYSTEM_PROMPT else MODEL_SHOT_SYSTEM_PROMPT)"

definition defaultRefinePrompt :: string where
  "defaultRefinePrompt = ''Make a subtle improvement to the overall aesthetic.''"

definition defaultPrompt :: "app_state \<Rightarrow> string" where
  "defaultPrompt s =
     (if isProductShot s then ''A suitable product shot scene.''
      else ''A suitable fashion lookbook scene.'')"

text \<open>The inspiration block, pushed in both branches when an inspiration photo is held.\<close>

definition inspirationParts :: "env \<Rightarrow> app_state \<Rightarrow> part list" where
  \<open>inspirationParts e s =
     (case inspirationPhoto s of
        None \<Rightarrow> []
      | Some f \<Rightarrow>
          [Text ''\<newline>\<newline>**INPUT: AESTHETIC INSPIRATION PHOTO**'',
           fileToGenerativePart e f])\<close>

text \<open>\<open>new File([blob], name, { type })\<close>\<close>

definition new_File :: "blob \<Rightarrow> string \<Rightarrow> string \<Rightarrow> js_file" where
  "new_File b name type = \<lparr>file_name = name, file_type = type, file_bytes = blob_bytes b\<rparr>"

text \<open>
  The branch of \<open>handleGenerate\<close> taken when a generated image is held (a refinement).
  Reading the dimensions comes first; its rejection carries the image's error event, which
  is not an \<open>Error\<close>. Then the image is fetched back as a blob (\<open>fetch\<close> stands for
  the fetch and the read of its body) and wrapped in a file. \<open>refinementPushes\<close> is the
  run of \<open>parts.push\<close> calls that follows, in the source's order.
\<close>

definition refinementPushes :: "env \<Rightarrow> app_state \<Rightarrow> js_file \<Rightarrow> nat \<Rightarrow> nat \<Rightarrow> js_file \<Rightarrow> part list" where
  \<open>refinementPushes e s hero width height previousLookbookFile =
     [Text (editingPrompt (activeSystemPrompt s) width height),
      Text ''\<newline>\<newline>---\<newline>\<newline>**CREATIVE DIRECTION FOR REFINEMENT**'',
      Text ''\<newline>\<newline>**INPUT: HERO ITEM REFERENCE**'',
      fileToGenerativePart e hero] @
     inspirationParts e s @
     [Text (''\<newline>\<newline>**INPUT: CREATIVE BRIEF**\<newline>"'' @
            or_else (stylePrompt s) defaultRefinePrompt @ ''"''),
      Text ''\<newline>\<newline>---\<newline>\<newline>**IMAGE TO BE EDITED**'',
      Text ''\<newline>\<newline>**INPUT: IMAGE TO EDIT**'',
      fileToGenerativePart e previousLookbookFile,
      Text ''\<newline>\<newline>---\<newline>\<newline>**ACTION: Generate the refined image now based on the new creative direction and the image to be edited.**'']\<close>

definition refinementParts :: "env \<Rightarrow> app_state \<Rightarrow> js_file \<Rightarrow> string \<Rightarrow> js_error + part list" where
  "refinementParts e s hero src =
     (case getImageDimensions e src of
        None \<Rightarrow> Inl NonError
      | Some (width, height) \<Rightarrow>
          (case fetch e src of
             Inl err \<Rightarrow> Inl err
           | Inr b \<Rightarrow>
               Inr (refinementPushes e s hero width height
                      (new_File b ''previous_lookbook.png'' (blob_type b)))))"

text \<open>The other branch: a fresh generation.\<close>

definition initialParts :: "env \<Rightarrow> app_state \<Rightarrow> js_file \<Rightarrow> part list" where
  \<open>initialParts e s hero =
     [Text (activeSystemPrompt s),
      Text ''\<newline>\<newline>---\<newline>\<newline>**INPUT: HERO ITEM PHOTO**'',
      fileToGenerativePart e hero] @
     inspirationParts e s @
     [Text (''\<newline>\<newline>**INPUT: CREATIVE BRIEF**\<newline>"'' @
            or_else (stylePrompt s) (defaultPrompt s) @ ''"''),
      Text ''\<newline>\<newline>---\<newline>\<newline>**ACTION: Generate the final image now based on all instructions and inputs provided.**'']\<close>

definition composeParts :: "env \<Rightarrow> app_state \<Rightarrow> js_file \<Rightarrow> js_error + part list" where
  "composeParts e s hero =
     (case generatedImage s of
        None \<Rightarrow> Inr (initialParts e s hero)
      | Some src \<Rightarrow>
          (if truthy (Some src) then refinementParts e s hero src
           else Inr (initialParts e s hero)))"

section \<open>Running a generation\<close>

text \<open>
  \<open>response.candidates?.[0]?.content.parts.find(part => part.inlineData)\<close>: the two
  optional steps give \<open>undefined\<close>, the two plain reads throw a \<open>TypeError\<close>.
\<close>

definition findImagePart :: "env \<Rightarrow> generate_response \<Rightarrow> js_error + part option" where
  "findImagePart e response =
     (case candidates response of
        None \<Rightarrow> Inr None
      | Some cs \<Rightarrow>
          (case index cs 0 of
             None \<Rightarrow> Inr None
           | Some c \<Rightarrow>
               (case content c of
                  None \<Rightarrow> Inl (Error (typeErrorMessage e ''parts''))
                | Some ct \<Rightarrow>
                    (case parts ct of
                       None \<Rightarrow> Inl (Error (typeErrorMessage e ''find''))
                     | Some ps \<Rightarrow> Inr (find is_image ps)))))"

text \<open>\<open>err instanceof Error ? err.message : "An unknown error occurred."\<close>\<close>

definition catch_message :: "js_error \<Rightarrow> string" where
  "catch_message err = (case err of Error m \<Rightarrow> m | NonError \<Rightarrow> ''An unknown error occurred.'')"

definition generation_failed :: "app_state \<Rightarrow> js_error \<Rightarrow> app_state" where
  "generation_failed s err = s\<lparr>error := Some (catch_message err), isLoading := False\<rparr>"

definition generation_request :: "part list \<Rightarrow> generate_request" where
  "generation_request ps =
     \<lparr>model = ''gemini-2.5-flash-image-preview'', contents = ps,
      responseModalities = Some [IMAGE, TEXT]\<rparr>"

text \<open>
  The click handler. It reads the state of the render in which it was created and writes
  \<open>isLoading\<close>, \<open>error\<close> and \<open>generatedImage\<close>; no other handler is taken to run
  between its steps. The result is the state after the handler has settled, with the
  requests it submitted to the generation service, in order.
\<close>

definition handleGenerate :: "globals \<Rightarrow> env \<Rightarrow> app_state \<Rightarrow> app_state \<times> generate_request list" where
  \<open>handleGenerate g e s =
     (case ai g of
        None \<Rightarrow> (s\<lparr>error := apiKeyError g, isLoading := False\<rparr>, [])
      | Some client \<Rightarrow>
          (case heroItem s of
             None \<Rightarrow> (s, [])
           | Some hero \<Rightarrow>
               (let s1 = s\<lparr>isLoading := True, error := None\<rparr>
                in case composeParts e s hero of
                     Inl err \<Rightarrow> (generation_failed s1 err, [])
                   | Inr ps \<Rightarrow>
                       (let request = generation_request ps
                        in case generateContent e request of
                             Inl err \<Rightarrow> (generation_failed s1 err, [request])
                           | Inr response \<Rightarrow>
                               (case findImagePart e response of
                                  Inl err \<Rightarrow> (generation_failed s1 err, [request])
                                | Inr None \<Rightarrow>
                                    (generation_failed s1
                                       (Error ''The Alchemist couldn't generate an image. Try refining your inputs.''),
                                     [request])
                                | Inr (Some (Text t)) \<Rightarrow>
                                    (generation_failed s1
                                       (Error ''The Alchemist couldn't generate an image. Try refining your inputs.''),
                                     [request])
                                | Inr (Some (InlineData d)) \<Rightarrow>
                                    (s1\<lparr>generatedImage :=
                                          Some (''data:'' @ template_string (mimeType d) @
                                                '';base64,'' @ template_string (data d)),
                                        isLoading := False\<rparr>,
                                     [request]))))))\<close>

definition handleStartOver :: "app_state \<Rightarrow> app_state" where
  "handleStartOver s = s\<lparr>generatedImage := None, error := None\<rparr>"

section \<open>Classifying the hero item\<close>

definition classification_prompt :: string where
  \<open>classification_prompt =
     ''Analyze the image and identify the primary clothing or accessory item. Respond with ONLY one of the following categories that best fits the item: T-Shirt, Top, Jacket, Pants, Dress, Watch, Bracelet, Ring, Necklace, Earrings, Hat, Shoes, Handbag. If it doesn't fit, respond with 'Other'.''\<close>

definition classification_request :: "env \<Rightarrow> js_file \<Rightarrow> generate_request" where
  "classification_request e f =
     \<lparr>model = ''gemini-2.5-flash'',
      contents = [Text classification_prompt, fileToGenerativePart e f],
      responseModalities = None\<rparr>"

text \<open>
  \<open>response.text.trim()\<close> throws when the response has no text; every throw inside the
  \<open>try\<close> ends in the same \<open>catch\<close>, which only logs and stores \<open>Other\<close>.
\<close>

definition identifyItemCategory :: "globals \<Rightarrow> env \<Rightarrow> app_state \<Rightarrow> js_file \<Rightarrow> app_state \<times> generate_request list" where
  "identifyItemCategory g e s f =
     (case ai g of
        None \<Rightarrow> (s\<lparr>error := apiKeyError g\<rparr>, [])
      | Some client \<Rightarrow>
          (let s1 = s\<lparr>isIdentifying := True, itemCategory := None, shotType := Model\<rparr>;
               request = classification_request e f
           in case generateContent e request of
                Inl err \<Rightarrow> (s1\<lparr>itemCategory := Some ''Other'', isIdentifying := False\<rparr>, [request])
              | Inr response \<Rightarrow>
                  (case response_text response of
                     None \<Rightarrow> (s1\<lparr>itemCategory := Some ''Other'', isIdentifying := False\<rparr>, [request])
                   | Some t \<Rightarrow> (s1\<lparr>itemCategory := Some (trim t), isIdentifying := False\<rparr>, [request]))))"

text \<open>The effect that runs when the hero item changes.\<close>

definition heroItem_effect :: "globals \<Rightarrow> env \<Rightarrow> app_state \<Rightarrow> app_state \<times> generate_request list" where
  "heroItem_effect g e s =
     (case heroItem s of
        Some f \<Rightarrow> identifyItemCategory g e s f
      | None \<Rightarrow> (s\<lparr>itemCategory := None\<rparr>, []))"

section \<open>The output panel\<close>

text \<open>
  What the output panel renders: the generated image if one is held, otherwise the error
  message if one is held, otherwise the placeholder.
\<close>

datatype output_view = OutputImage string | ErrorMessage string | Placeholder

definition render_output :: "app_state \<Rightarrow> output_view" where
  "render_output s =
     (case generatedImage s of
        Some src \<Rightarrow>
          (if src \<noteq> [] then OutputImage src
           else (case error s of
                   Some m \<Rightarrow> (if m \<noteq> [] then ErrorMessage m else Placeholder)
                 | None \<Rightarrow> Placeholder))
      | None \<Rightarrow>
          (case error s of
             Some m \<Rightarrow> (if m \<noteq> [] then ErrorMessage m else Placeholder)
           | None \<Rightarrow> Placeholder))"

section \<open>The export crop\<close>

text \<open>
  Numbers are modelled exactly, as rationals. The only operation of the crop that can
  leave the finite numbers is the quotient \<open>sourceWidth / sourceHeight\<close> when the height is
  zero: it is then \<open>Infinity\<close> (positive width) or \<open>NaN\<close> (zero width), and a
  comparison with \<open>NaN\<close> is false.
\<close>

datatype js_number = Finite rat | Infinity | NaN

definition js_div :: "nat \<Rightarrow> nat \<Rightarrow> js_number" where
  "js_div a b =
     (if b = 0 then (if a = 0 then NaN else Infinity) else Finite (of_nat a / of_nat b))"

fun js_gt :: "js_number \<Rightarrow> rat \<Rightarrow> bool" where
  "js_gt (Finite x) t = (x > t)"
| "js_gt Infinity t = True"
| "js_gt NaN t = False"

fun js_lt :: "js_number \<Rightarrow> rat \<Rightarrow> bool" where
  "js_lt (Finite x) t = (x < t)"
| "js_lt Infinity t = False"
| "js_lt NaN t = False"

fun js_eq :: "js_number \<Rightarrow> rat \<Rightarrow> bool" where
  "js_eq (Finite x) t = (x = t)"
| "js_eq Infinity t = False"
| "js_eq NaN t = False"

datatype aspect = Aspect_1_1 | Aspect_9_16 | Aspect_16_9

definition targetAspect :: "aspect \<Rightarrow> rat" where
  "targetAspect a =
     (if a = Aspect_16_9 then 16 / 9 else if a = Aspect_9_16 then 9 / 16 else 1)"

record crop =
  sx :: rat
  sy :: rat
  sWidth :: rat
  sHeight :: rat

text \<open>
  The body of the image's \<open>onload\<close> in \<open>handleDownload\<close>, up to the rectangle handed to
  \<open>drawImage\<close>. The assignments are kept in the source's order.
\<close>

definition sourceAspect :: "nat \<Rightarrow> nat \<Rightarrow> js_number" where
  "sourceAspect sourceWidth sourceHeight = js_div sourceWidth sourceHeight"

definition crop_rect :: "aspect \<Rightarrow> nat \<Rightarrow> nat \<Rightarrow> crop" where
  "crop_rect a sourceWidth sourceHeight =
     (let t = targetAspect a;
          c0 = \<lparr>sx = 0, sy = 0, sWidth = of_nat sourceWidth, sHeight = of_nat sourceHeight\<rparr>;
          c1 = (if js_gt (sourceAspect sourceWidth sourceHeight) t then
                  (let w = of_nat sourceHeight * t
                   in c0\<lparr>sWidth := w, sx := (of_nat sourceWidth - w) / 2\<rparr>)
                else if js_lt (sourceAspect sourceWidth sourceHeight) t then
                  (let h = of_nat sourceWidth / t
                   in c0\<lparr>sHeight := h, sy := (of_nat sourceHeight - h) / 2\<rparr>)
                else c0)
      in if a = Aspect_16_9 \<and> js_lt (sourceAspect sourceWidth sourceHeight) t
         then c1\<lparr>sy := (of_nat sourceHeight - sHeight c1) * 0.3\<rparr>
         else c1)"

section \<open>The export crop in double precision\<close>

text \<open>
  The numbers of the program are IEEE 754 doubles: every arithmetic operation gives the
  double nearest to the exact result, ties going to the even significand. A finite double
  is \<open>m * 2^q\<close> with an integer \<open>m\<close> below \<open>2^53\<close> in magnitude and
  \<open>q\<close> from \<open>-1074\<close> up. \<open>round_double\<close> rounds a rational to that grid:
  \<open>scale_down\<close> and \<open>scale_up\<close> bring its magnitude into \<open>[2^52, 2^53)\<close> (or
  stop at the exponent \<open>-1074\<close> of the subnormal numbers), and the scaled value is
  rounded to an integer. Overflow to infinity is left out: the natural width and height of
  an image are 32-bit unsigned integers, so no value of the crop exceeds \<open>2^33\<close>. The
  sign of a zero is left out as well: the crop never divides by a computed zero.
\<close>

function scale_down :: "rat \<Rightarrow> int \<Rightarrow> rat \<times> int" where
  "scale_down m q = (if 9007199254740992 \<le> m then scale_down (m / 2) (q + 1) else (m, q))"
  by pat_completeness auto
termination
proof (relation "measure (\<lambda>(m, q). nat \<lfloor>m\<rfloor>)")
  show "wf (measure (\<lambda>(m, q). nat \<lfloor>m\<rfloor>))" by simp
next
  fix m :: rat and q :: int
  assume big: "9007199254740992 \<le> m"
  then have "m / 2 \<le> m - 1" by simp
  then have "\<lfloor>m / 2\<rfloor> \<le> \<lfloor>m - 1\<rfloor>" by (rule floor_mono)
  moreover have "1 \<le> \<lfloor>m\<rfloor>" using big by (simp add: le_floor_iff)
  ultimately show "((m / 2, q + 1), (m, q)) \<in> measure (\<lambda>(m, q). nat \<lfloor>m\<rfloor>)"
    by simp
qed

function scale_up :: "rat \<Rightarrow> int \<Rightarrow> rat \<times> int" where
  "scale_up m q =
     (if m < 4503599627370496 \<and> - 1074 < q then scale_up (m * 2) (q - 1) else (m, q))"
  by pat_completeness auto
termination
  by (relation "measure (\<lambda>(m, q). nat (q + 1074))") auto

declare scale_down.simps [simp del] scale_up.simps [simp del]

definition round_half_even :: "rat \<Rightarrow> int" where
  "round_half_even m =
     (let f = \<lfloor>m\<rfloor>; r = m - of_int f
      in if r < 1 / 2 then f else if 1 / 2 < r then f + 1 else if even f then f else f + 1)"

definition pow2 :: "int \<Rightarrow> rat" where
  "pow2 q = (if 0 \<le> q then 2 ^ nat q else 1 / 2 ^ nat (- q))"

definition round_double :: "rat \<Rightarrow> rat" where
  "round_double x =
     (if x = 0 then 0
      else (case scale_down \<bar>x\<bar> 0 of
              (m1, q1) \<Rightarrow>
                (case scale_up m1 q1 of
                   (m, q) \<Rightarrow> sgn x * (of_int (round_half_even m) * pow2 q))))"

text \<open>The operations of the crop, each rounded once; the divisors are never zero.\<close>

definition double_mul :: "rat \<Rightarrow> rat \<Rightarrow> rat" where
  "double_mul x y = round_double (x * y)"

definition double_div :: "rat \<Rightarrow> rat \<Rightarrow> rat" where
  "double_div x y = round_double (x / y)"

definition double_sub :: "rat \<Rightarrow> rat \<Rightarrow> rat" where
  "double_sub x y = round_double (x - y)"

text \<open>
  \<open>naturalWidth\<close> and \<open>naturalHeight\<close> are \<open>unsigned long\<close>; as numbers they are exact.
\<close>

definition to_number :: "32 word \<Rightarrow> rat" where
  "to_number n = of_nat (unat n)"

definition targetAspect_double :: "aspect \<Rightarrow> rat" where
  "targetAspect_double a =
     (if a = Aspect_16_9 then double_div 16 9
      else if a = Aspect_9_16 then double_div 9 16 else 1)"

definition sourceAspect_double :: "32 word \<Rightarrow> 32 word \<Rightarrow> js_number" where
  "sourceAspect_double naturalWidth naturalHeight =
     (if naturalHeight = 0 then (if naturalWidth = 0 then NaN else Infinity)
      else Finite (double_div (to_number naturalWidth) (to_number naturalHeight)))"

text \<open>
  The same body of \<open>onload\<close> as \<open>crop_rect\<close>, with the program's arithmetic. The
  literal \<open>0.3\<close> is the double nearest to three tenths.
\<close>

definition crop_rect_double :: "aspect \<Rightarrow> 32 word \<Rightarrow> 32 word \<Rightarrow> crop" where
  "crop_rect_double a naturalWidth naturalHeight =
     (let sourceWidth = to_number naturalWidth;
          sourceHeight = to_number naturalHeight;
          sourceAspect = sourceAspect_double naturalWidth naturalHeight;
          t = targetAspect_double a;
          c0 = \<lparr>sx = 0, sy = 0, sWidth = sourceWidth, sHeight = sourceHeight\<rparr>;
          c1 = (if js_gt sourceAspect t then
                  (let w = double_mul sourceHeight t
                   in c0\<lparr>sWidth := w, sx := double_div (double_sub sourceWidth w) 2\<rparr>)
                else if js_lt sourceAspect t then
                  (let h = double_div sourceWidth t
                   in c0\<lparr>sHeight := h, sy := double_div (double_sub sourceHeight h) 2\<rparr>)
                else c0)
      in if a = Aspect_16_9 \<and> js_lt sourceAspect t
         then c1\<lparr>sy := double_mul (double_sub sourceHeight (sHeight c1)) (round_double 0.3)\<rparr>
         else c1)"

section \<open>Example inputs\<close>

text \<open>Concrete inputs on which the properties below are exercised.\<close>

definition example_hero :: js_file where
  "example_hero = \<lparr>file_name = ''watch.png'', file_type = ''image/png'', file_bytes = [137, 80, 78, 71]\<rparr>"

definition example_inspiration :: js_file where
  "example_inspiration = \<lparr>file_name = ''mood.jpg'', file_type = ''image/jpeg'', file_bytes = [255, 216]\<rparr>"

definition example_prior :: string where
  "example_prior = ''data:image/png;base64,QUJD''"

definition example_response :: generate_response where
  "example_response =
     \<lparr>candidates =
        Some [Candidate (Some (Content (Some
          [Text ''Here is your lookbook.'',
           InlineData \<lparr>data = Some ''QUJD'', mimeType = Some ''image/png''\<rparr>])))],
      response_text = Some ''Here is your lookbook.''\<rparr>"

definition text_only_response :: generate_response where
  "text_only_response =
     \<lparr>candidates = Some [Candidate (Some (Content (Some [Text ''I cannot create that image.''])))],
      response_text = Some ''I cannot create that image.''\<rparr>"

definition example_env :: env where
  "example_env =
     \<lparr>readAsDataURL = (\<lambda>f. ''data:'' @ file_type f @ '';base64,'' @ ''iVBORw=='' ),
      getImageDimensions = (\<lambda>src. Some (1024, 768)),
      fetch = (\<lambda>src. Inr \<lparr>blob_type = ''image/png'', blob_bytes = [65, 66, 67]\<rparr>),
      generateContent = (\<lambda>request. Inr example_response),
      typeErrorMessage = (\<lambda>p. ''Cannot read properties of undefined (reading '' @ p @ '')'')\<rparr>"

definition example_globals :: globals where
  "example_globals = \<lparr>ai = Some (GoogleGenAI (Some ''key'')), apiKeyError = None\<rparr>"

definition example_state :: app_state where
  "example_state =
     \<lparr>heroItem = Some example_hero, inspirationPhoto = Some example_inspiration,
      stylePrompt = [], generatedImage = None, isLoading = False, error = None,
      itemCategory = Some ''Hat'', isIdentifying = False, isDownloadMenuOpen = False,
      shotType = Product\<rparr>"

text \<open>A state that holds a generated image: the next generation is a refinement.\<close>

definition example_refinement :: app_state where
  "example_refinement = example_state\<lparr>generatedImage := Some example_prior\<rparr>"

text \<open>
  A constructor that throws without a key and accepts any key it is given, and a service
  that rejects the key on every call.
\<close>

definition example_constructor :: "string option \<Rightarrow> js_error + GoogleGenAI" where
  "example_constructor key =
     (case key of
        None \<Rightarrow> Inl (Error ''An API Key must be set when running in a browser'')
      | Some k \<Rightarrow> Inr (GoogleGenAI (Some k)))"

definition rejecting_env :: env where
  "rejecting_env =
     example_env\<lparr>generateContent :=
       \<lambda>request. Inl (Error ''API key not valid. Please pass a valid API key.'')\<rparr>"

section \<open>Properties of the export crop\<close>

lemma targetAspect_pos: "0 < targetAspect a"
  by (simp add: targetAspect_def)

lemma js_gt_not_lt: "js_gt x t \<Longrightarrow> \<not> js_lt x t"
  by (cases x) auto

lemma js_lt_not_gt: "js_lt x t \<Longrightarrow> \<not> js_gt x t"
  by (cases x) auto

lemma js_eq_neither: "js_eq x t \<Longrightarrow> \<not> js_gt x t \<and> \<not> js_lt x t"
  by (cases x) auto

text \<open>
  Evaluating the double-precision operations on numerals, with two well-known values:
  \<open>0.1 + 0.2\<close> is \<open>0.30000000000000004\<close>, not the double \<open>0.3\<close>.
\<close>

lemma floor_rat_numeral:
  "\<lfloor>numeral a / numeral b :: rat\<rfloor> = numeral a div numeral b"
  using floor_divide_of_int_eq [of "numeral a" "numeral b", where ?'a = rat] by simp

lemmas double_eval = round_double_def scale_down.simps scale_up.simps round_half_even_def
  pow2_def Let_def floor_rat_numeral double_mul_def double_div_def double_sub_def

lemma double_constants:
  "double_div 16 9 = 2001599834386887 / 1125899906842624"
  "double_div 9 16 = 9 / 16"
  "round_double 0.3 = 5404319552844595 / 18014398509481984"
  by (simp_all add: double_eval)

lemma double_sum_example:
  "round_double (round_double 0.1 + round_double 0.2) = 5404319552844596 / 18014398509481984"
  "round_double 0.1 + round_double 0.2 \<noteq> round_double 0.3"
  by (simp_all add: double_eval)

lemma crop_double_1920_1080_square:
  "crop_rect_double Aspect_1_1 1920 1080 = \<lparr>sx = 420, sy = 0, sWidth = 1080, sHeight = 1080\<rparr>"
  by (simp add: crop_rect_double_def sourceAspect_double_def targetAspect_double_def
        to_number_def double_eval)

lemma crop_double_2000_1000:
  "crop_rect_double Aspect_16_9 2000 1000 =
     \<lparr>sx = 977343669134223 / 8796093022208, sy = 0,
      sWidth = 7818749353073777 / 4398046511104, sHeight = 1000\<rparr>"
  by (simp add: crop_rect_double_def sourceAspect_double_def targetAspect_double_def
        to_number_def double_eval)

lemma crop_double_1024_768:
  "crop_rect_double Aspect_16_9 1024 768 =
     \<lparr>sx = 0, sy = 2026619832316723 / 35184372088832, sWidth = 1024, sHeight = 576\<rparr>"
  by (simp add: crop_rect_double_def sourceAspect_double_def targetAspect_double_def
        to_number_def double_eval)

lemma crop_double_1080_1920:
  "crop_rect_double Aspect_16_9 1080 1920 =
     \<lparr>sx = 0, sy = 393.75, sWidth = 1080, sHeight = 607.5\<rparr>"
  by (simp add: crop_rect_double_def sourceAspect_double_def targetAspect_double_def
        to_number_def double_eval)

text \<open>
  Claim C2. The crop rectangle in the program's arithmetic, case by case on the
  comparison of the source aspect \<open>naturalWidth / naturalHeight\<close> with the target
  aspect. Wider source: \<open>sWidth = naturalHeight * targetAspect\<close>,
  \<open>sx = (naturalWidth - sWidth) / 2\<close>, \<open>sy = 0\<close>, full height. Narrower source,
  target other than 16:9: \<open>sHeight = naturalWidth / targetAspect\<close>,
  \<open>sy = (naturalHeight - sHeight) / 2\<close>, \<open>sx = 0\<close>, full width. Equal aspects:
  the full source rectangle. Every operation is the double operation. A 1920 by 1080
  source cropped to 1:1 gives \<open>sWidth = 1080\<close>, \<open>sx = 420\<close>, \<open>sy = 0\<close>,
  \<open>sHeight = 1080\<close>.
\<close>

theorem crop_rect_double_cases:
  "(js_gt (sourceAspect_double w h) (targetAspect_double a) \<longrightarrow>
      crop_rect_double a w h =
        \<lparr>sx = double_div
                (double_sub (to_number w) (double_mul (to_number h) (targetAspect_double a))) 2,
         sy = 0,
         sWidth = double_mul (to_number h) (targetAspect_double a),
         sHeight = to_number h\<rparr>) \<and>
   (js_lt (sourceAspect_double w h) (targetAspect_double a) \<and> a \<noteq> Aspect_16_9 \<longrightarrow>
      crop_rect_double a w h =
        \<lparr>sx = 0,
         sy = double_div
                (double_sub (to_number h) (double_div (to_number w) (targetAspect_double a))) 2,
         sWidth = to_number w,
         sHeight = double_div (to_number w) (targetAspect_double a)\<rparr>) \<and>
   (js_eq (sourceAspect_double w h) (targetAspect_double a) \<longrightarrow>
      crop_rect_double a w h =
        \<lparr>sx = 0, sy = 0, sWidth = to_number w, sHeight = to_number h\<rparr>) \<and>
   crop_rect_double Aspect_1_1 1920 1080 =
     \<lparr>sx = 420, sy = 0, sWidth = 1080, sHeight = 1080\<rparr>"
proof (intro conjI impI)
  assume gt: "js_gt (sourceAspect_double w h) (targetAspect_double a)"
  with js_gt_not_lt [OF gt]
  show "crop_rect_double a w h =
        \<lparr>sx = double_div
                (double_sub (to_number w) (double_mul (to_number h) (targetAspect_double a))) 2,
         sy = 0,
         sWidth = double_mul (to_number h) (targetAspect_double a),
         sHeight = to_number h\<rparr>"
    by (simp add: crop_rect_double_def Let_def)
next
  assume lt: "js_lt (sourceAspect_double w h) (targetAspect_double a) \<and> a \<noteq> Aspect_16_9"
  then have "\<not> js_gt (sourceAspect_double w h) (targetAspect_double a)"
    by (simp add: js_lt_not_gt)
  with lt show "crop_rect_double a w h =
        \<lparr>sx = 0,
         sy = double_div
                (double_sub (to_number h) (double_div (to_number w) (targetAspect_double a))) 2,
         sWidth = to_number w,
         sHeight = double_div (to_number w) (targetAspect_double a)\<rparr>"
    by (simp add: crop_rect_double_def Let_def)
next
  assume "js_eq (sourceAspect_double w h) (targetAspect_double a)"
  from js_eq_neither [OF this]
  show "crop_rect_double a w h =
        \<lparr>sx = 0, sy = 0, sWidth = to_number w, sHeight = to_number h\<rparr>"
    by (simp add: crop_rect_double_def Let_def)
next
  show "crop_rect_double Aspect_1_1 1920 1080 =
     \<lparr>sx = 420, sy = 0, sWidth = 1080, sHeight = 1080\<rparr>"
    by (rule crop_double_1920_1080_square)
qed

lemma double_examples_C2:
  "sourceAspect_double 2000 1000 = Finite 2"
  "sourceAspect_double 1080 3000 = Finite (6485183463413514 / 18014398509481984)"
  "sourceAspect_double 1920 1080 = Finite (2001599834386887 / 1125899906842624)"
  "targetAspect_double Aspect_16_9 = 2001599834386887 / 1125899906842624"
  "targetAspect_double Aspect_9_16 = 9 / 16"
  "to_number 2000 = 2000" "to_number 1000 = 1000" "to_number 1080 = 1080"
  "to_number 3000 = 3000" "to_number 1920 = 1920"
  by (simp_all add: sourceAspect_double_def targetAspect_double_def to_number_def double_eval)

theorem crop_rect_double_cases_witness:
  "js_gt (sourceAspect_double 2000 1000) (targetAspect_double Aspect_16_9) \<and>
   crop_rect_double Aspect_16_9 2000 1000 =
     \<lparr>sx = 977343669134223 / 8796093022208, sy = 0,
      sWidth = 7818749353073777 / 4398046511104, sHeight = 1000\<rparr> \<and>
   1777.7777777777775 < sWidth (crop_rect_double Aspect_16_9 2000 1000) \<and>
   sWidth (crop_rect_double Aspect_16_9 2000 1000) < 1777.7777777777777 \<and>
   111.1111111111111 < sx (crop_rect_double Aspect_16_9 2000 1000) \<and>
   sx (crop_rect_double Aspect_16_9 2000 1000) < 111.1111111111113 \<and>
   js_lt (sourceAspect_double 1080 3000) (targetAspect_double Aspect_9_16) \<and>
   Aspect_9_16 \<noteq> Aspect_16_9 \<and>
   crop_rect_double Aspect_9_16 1080 3000 =
     \<lparr>sx = 0, sy = 540, sWidth = 1080, sHeight = 1920\<rparr> \<and>
   js_eq (sourceAspect_double 1920 1080) (targetAspect_double Aspect_16_9) \<and>
   crop_rect_double Aspect_16_9 1920 1080 =
     \<lparr>sx = 0, sy = 0, sWidth = 1920, sHeight = 1080\<rparr>"
proof -
  have wider: "js_gt (sourceAspect_double 2000 1000) (targetAspect_double Aspect_16_9)"
    and narrower: "js_lt (sourceAspect_double 1080 3000) (targetAspect_double Aspect_9_16)"
    and same: "js_eq (sourceAspect_double 1920 1080) (targetAspect_double Aspect_16_9)"
    by (simp_all add: double_examples_C2)
  have a: "crop_rect_double Aspect_16_9 2000 1000 =
     \<lparr>sx = 977343669134223 / 8796093022208, sy = 0,
      sWidth = 7818749353073777 / 4398046511104, sHeight = 1000\<rparr>"
    using crop_rect_double_cases [of 2000 1000 Aspect_16_9] wider
    by (simp add: double_examples_C2 double_eval)
  have b: "crop_rect_double Aspect_9_16 1080 3000 =
     \<lparr>sx = 0, sy = 540, sWidth = 1080, sHeight = 1920\<rparr>"
    using crop_rect_double_cases [of 1080 3000 Aspect_9_16] narrower
    by (simp add: double_examples_C2 double_eval)
  have c: "crop_rect_double Aspect_16_9 1920 1080 =
     \<lparr>sx = 0, sy = 0, sWidth = 1920, sHeight = 1080\<rparr>"
    using crop_rect_double_cases [of 1920 1080 Aspect_16_9] same
    by (simp add: double_examples_C2)
  from wider narrower same b c show ?thesis
    unfolding a by simp
qed

text \<open>
  Claim C4. A source whose aspect is strictly below 16/9, cropped to 16:9, in the
  program's arithmetic: \<open>sHeight = naturalWidth / (16 / 9)\<close> and
  \<open>sy = (naturalHeight - sHeight) * 0.3\<close>, not the centred offset. A 1080 by 1920
  source gives \<open>sHeight = 607.5\<close> and \<open>sy = 393.75\<close>; the centred offset would be
  656.25.
\<close>

theorem crop_rect_double_16_9_bias:
  "(js_lt (sourceAspect_double w h) (double_div 16 9) \<longrightarrow>
      sHeight (crop_rect_double Aspect_16_9 w h) = double_div (to_number w) (double_div 16 9) \<and>
      sy (crop_rect_double Aspect_16_9 w h) =
        double_mul (double_sub (to_number h) (sHeight (crop_rect_double Aspect_16_9 w h)))
          (round_double 0.3) \<and>
      sx (crop_rect_double Aspect_16_9 w h) = 0 \<and>
      sWidth (crop_rect_double Aspect_16_9 w h) = to_number w) \<and>
   sHeight (crop_rect_double Aspect_16_9 1080 1920) = 607.5 \<and>
   sy (crop_rect_double Aspect_16_9 1080 1920) = 393.75 \<and>
   sy (crop_rect_double Aspect_16_9 1080 1920) \<noteq> double_div (double_sub 1920 607.5) 2 \<and>
   double_div (double_sub 1920 607.5) 2 = 656.25"
proof (intro conjI impI)
  assume lt: "js_lt (sourceAspect_double w h) (double_div 16 9)"
  note ngt = js_lt_not_gt [OF lt]
  from lt ngt
  show "sHeight (crop_rect_double Aspect_16_9 w h) = double_div (to_number w) (double_div 16 9)"
    by (simp add: crop_rect_double_def Let_def targetAspect_double_def)
  from lt ngt
  show "sy (crop_rect_double Aspect_16_9 w h) =
        double_mul (double_sub (to_number h) (sHeight (crop_rect_double Aspect_16_9 w h)))
          (round_double 0.3)"
    by (simp add: crop_rect_double_def Let_def targetAspect_double_def)
  from lt ngt show "sx (crop_rect_double Aspect_16_9 w h) = 0"
    by (simp add: crop_rect_double_def Let_def targetAspect_double_def)
  from lt ngt show "sWidth (crop_rect_double Aspect_16_9 w h) = to_number w"
    by (simp add: crop_rect_double_def Let_def targetAspect_double_def)
next
  show "sHeight (crop_rect_double Aspect_16_9 1080 1920) = 607.5"
    by (simp add: crop_double_1080_1920)
  show "sy (crop_rect_double Aspect_16_9 1080 1920) = 393.75"
    by (simp add: crop_double_1080_1920)
  show "sy (crop_rect_double Aspect_16_9 1080 1920) \<noteq> double_div (double_sub 1920 607.5) 2"
    by (simp add: crop_double_1080_1920 double_eval)
  show "double_div (double_sub 1920 607.5) 2 = 656.25"
    by (simp add: double_eval)
qed

theorem crop_rect_double_16_9_bias_witness:
  "js_lt (sourceAspect_double 1024 768) (double_div 16 9) \<and>
   sHeight (crop_rect_double Aspect_16_9 1024 768) = 576 \<and>
   sy (crop_rect_double Aspect_16_9 1024 768) = 2026619832316723 / 35184372088832 \<and>
   57.59999999999999 < sy (crop_rect_double Aspect_16_9 1024 768) \<and>
   sy (crop_rect_double Aspect_16_9 1024 768) < 57.6"
proof -
  have lt: "js_lt (sourceAspect_double 1024 768) (double_div 16 9)"
    by (simp add: sourceAspect_double_def to_number_def double_eval)
  have n: "to_number 1024 = 1024" "to_number 768 = 768"
    by (simp_all add: to_number_def)
  note code = crop_rect_double_16_9_bias [of 1024 768, THEN conjunct1, rule_format, OF lt]
  have h: "sHeight (crop_rect_double Aspect_16_9 1024 768) = 576"
    using code [THEN conjunct1] by (simp add: n double_eval)
  have y: "sy (crop_rect_double Aspect_16_9 1024 768) = 2026619832316723 / 35184372088832"
    using code [THEN conjunct2, THEN conjunct1] unfolding h by (simp add: n double_eval)
  from lt h show ?thesis unfolding y by simp
qed

text \<open>
  Claim C9. For a source of positive width and height and any of the three target aspects,
  the crop rectangle lies inside the source image and is not empty (exact arithmetic).
\<close>

theorem crop_rect_within_source:
  assumes "0 < w" and "0 < h"
  shows "0 \<le> sx (crop_rect a w h) \<and> 0 \<le> sy (crop_rect a w h) \<and>
         sx (crop_rect a w h) + sWidth (crop_rect a w h) \<le> of_nat w \<and>
         sy (crop_rect a w h) + sHeight (crop_rect a w h) \<le> of_nat h \<and>
         0 < sWidth (crop_rect a w h) \<and> 0 < sHeight (crop_rect a w h)"
proof -
  define W :: rat where "W = of_nat w"
  define H :: rat where "H = of_nat h"
  define t where "t = targetAspect a"
  have pos: "0 < W" "0 < H" "0 < t"
    using assms by (simp_all add: W_def H_def t_def targetAspect_pos)
  have sa: "sourceAspect w h = Finite (W / H)"
    using assms by (simp add: sourceAspect_def js_div_def W_def H_def)
  consider (wider) "W / H > t" | (narrower) "W / H < t" | (same) "W / H = t"
    by linarith
  then show ?thesis
  proof cases
    case wider
    then have "H * t < W" using pos by (simp add: field_simps)
    moreover have "0 < H * t" using pos by simp
    ultimately show ?thesis
      using wider pos
      by (simp add: crop_rect_def Let_def sa W_def[symmetric] H_def[symmetric]
            t_def[symmetric] field_simps)
  next
    case narrower
    then have "W / t < H" using pos by (simp add: field_simps)
    moreover have "0 < W / t" using pos by simp
    ultimately show ?thesis
      using narrower pos
      by (simp add: crop_rect_def Let_def sa W_def[symmetric] H_def[symmetric]
            t_def[symmetric] field_simps)
  next
    case same
    then show ?thesis
      using pos
      by (simp add: crop_rect_def Let_def sa W_def[symmetric] H_def[symmetric] t_def[symmetric])
  qed
qed

theorem crop_rect_within_source_witness:
  "(0::nat) < 1080 \<and> (0::nat) < 1920 \<and>
   0 \<le> sx (crop_rect Aspect_16_9 1080 1920) \<and> 0 \<le> sy (crop_rect Aspect_16_9 1080 1920) \<and>
   sx (crop_rect Aspect_16_9 1080 1920) + sWidth (crop_rect Aspect_16_9 1080 1920) \<le> 1080 \<and>
   sy (crop_rect Aspect_16_9 1080 1920) + sHeight (crop_rect Aspect_16_9 1080 1920) \<le> 1920 \<and>
   0 < sWidth (crop_rect Aspect_16_9 1080 1920) \<and> 0 < sHeight (crop_rect Aspect_16_9 1080 1920)"
  using crop_rect_within_source [of 1080 1920 Aspect_16_9] by simp


section \<open>Properties of the composed request\<close>

lemma is_image_fileToGenerativePart: "is_image (fileToGenerativePart e f)"
  by (simp add: fileToGenerativePart_def)

lemma filter_is_image_inspirationParts:
  "filter is_image (inspirationParts e s) =
     (case inspirationPhoto s of None \<Rightarrow> [] | Some f \<Rightarrow> [fileToGenerativePart e f])"
  by (simp add: inspirationParts_def is_image_fileToGenerativePart split: option.split)

lemma filter_is_image_initialParts:
  "filter is_image (initialParts e s hero) =
     fileToGenerativePart e hero #
     (case inspirationPhoto s of None \<Rightarrow> [] | Some f \<Rightarrow> [fileToGenerativePart e f])"
  by (simp add: initialParts_def filter_is_image_inspirationParts is_image_fileToGenerativePart)

lemma filter_is_image_refinementPushes:
  "filter is_image (refinementPushes e s hero width height prev) =
     fileToGenerativePart e hero #
     (case inspirationPhoto s of None \<Rightarrow> [] | Some f \<Rightarrow> [fileToGenerativePart e f]) @
     [fileToGenerativePart e prev]"
  by (simp add: refinementPushes_def filter_is_image_inspirationParts
        is_image_fileToGenerativePart)

lemma refinementParts_Inr:
  assumes "refinementParts e s hero src = Inr ps"
  shows "\<exists>width height b. getImageDimensions e src = Some (width, height) \<and>
           fetch e src = Inr b \<and>
           ps = refinementPushes e s hero width height
                  (new_File b ''previous_lookbook.png'' (blob_type b))"
  using assms
  by (auto simp: refinementParts_def split: option.splits sum.splits prod.splits)

lemma filter_is_image_refinementParts:
  assumes "refinementParts e s hero src = Inr ps"
  shows "\<exists>b. fetch e src = Inr b \<and>
           filter is_image ps =
             fileToGenerativePart e hero #
             (case inspirationPhoto s of None \<Rightarrow> [] | Some f \<Rightarrow> [fileToGenerativePart e f]) @
             [fileToGenerativePart e (new_File b ''previous_lookbook.png'' (blob_type b))]"
proof -
  from refinementParts_Inr [OF assms] obtain width height b where
    "fetch e src = Inr b"
    "ps = refinementPushes e s hero width height
            (new_File b ''previous_lookbook.png'' (blob_type b))"
    by blast
  then show ?thesis
    by (simp add: filter_is_image_refinementPushes)
qed

lemma handleGenerate_requests:
  assumes "request \<in> set (snd (handleGenerate g e s))"
  shows "\<exists>hero ps. heroItem s = Some hero \<and> composeParts e s hero = Inr ps \<and>
           request = generation_request ps"
  using assms
  by (auto simp: handleGenerate_def Let_def split: option.splits sum.splits part.splits)

lemma contents_generation_request: "contents (generation_request ps) = ps"
  by (simp add: generation_request_def)

lemma composeParts_refinement:
  assumes "generatedImage s = Some src" and "src \<noteq> []"
  shows "composeParts e s hero = refinementParts e s hero src"
  using assms by (simp add: composeParts_def)

lemma handleGenerate_submits:
  assumes "ai g = Some client" and "heroItem s = Some hero"
    and "composeParts e s hero = Inr ps"
  shows "snd (handleGenerate g e s) = [generation_request ps]"
  using assms
  by (simp add: handleGenerate_def Let_def split: sum.split option.split part.split)

lemma example_env_simps:
  "readAsDataURL example_env f = ''data:'' @ file_type f @ '';base64,iVBORw==''"
  "getImageDimensions example_env src = Some (1024, 768)"
  "fetch example_env src = Inr \<lparr>blob_type = ''image/png'', blob_bytes = [65, 66, 67]\<rparr>"
  "generateContent example_env request = Inr example_response"
  by (simp_all add: example_env_def)

lemma example_fresh_run:
  "handleGenerate example_globals example_env example_state =
     (example_state\<lparr>generatedImage := Some ''data:image/png;base64,QUJD''\<rparr>,
      [generation_request (initialParts example_env example_state example_hero)])"
  by (simp add: handleGenerate_def example_globals_def example_state_def composeParts_def
        example_env_simps generation_failed_def findImagePart_def example_response_def)

lemma example_refinement_run:
  "snd (handleGenerate example_globals example_env example_refinement) =
     [generation_request
        (case refinementParts example_env example_refinement example_hero example_prior of
           Inr ps \<Rightarrow> ps | Inl err \<Rightarrow> [])]"
  by (simp add: handleGenerate_def example_globals_def example_state_def composeParts_def
        example_env_simps generation_failed_def findImagePart_def example_response_def
        example_refinement_def example_prior_def refinementParts_def)

lemma example_images:
  "fileToGenerativePart example_env example_hero =
     InlineData \<lparr>data = Some ''iVBORw=='', mimeType = Some ''image/png''\<rparr>"
  "fileToGenerativePart example_env example_inspiration =
     InlineData \<lparr>data = Some ''iVBORw=='', mimeType = Some ''image/jpeg''\<rparr>"
  by (simp_all add: fileToGenerativePart_def example_env_simps example_hero_def
        example_inspiration_def)

lemma show_nat_examples: "show_nat 1024 = ''1024''" "show_nat 768 = ''768''"
  by (simp_all add: show_nat.simps digit_def)

text \<open>
  Claim C1. Every request that \<open>handleGenerate\<close> submits carries, as its image parts
  and in this order: the hero item's image, exactly once; the inspiration image if and
  only if an inspiration photo is held; the prior result's image if and only if a generated
  image is held (the generation is a refinement). The prior result's image is the part
  made from the blob that was fetched back from the held image.
\<close>

theorem generation_request_image_segments:
  assumes "request \<in> set (snd (handleGenerate g e s))"
  shows "\<exists>hero. heroItem s = Some hero \<and>
     (if truthy (generatedImage s)
      then \<exists>src b. generatedImage s = Some src \<and> fetch e src = Inr b \<and>
             filter is_image (contents request) =
               fileToGenerativePart e hero #
               (case inspirationPhoto s of None \<Rightarrow> [] | Some f \<Rightarrow> [fileToGenerativePart e f]) @
               [fileToGenerativePart e (new_File b ''previous_lookbook.png'' (blob_type b))]
      else filter is_image (contents request) =
             fileToGenerativePart e hero #
             (case inspirationPhoto s of None \<Rightarrow> [] | Some f \<Rightarrow> [fileToGenerativePart e f]))"
proof -
  from handleGenerate_requests [OF assms] obtain hero ps where
    hero: "heroItem s = Some hero" and ps: "composeParts e s hero = Inr ps"
    and req: "request = generation_request ps"
    by blast
  show ?thesis
  proof (cases "truthy (generatedImage s)")
    case True
    then obtain src where src: "generatedImage s = Some src" "src \<noteq> []"
      by (cases "generatedImage s") auto
    with ps have "refinementParts e s hero src = Inr ps"
      by (simp add: composeParts_def)
    from filter_is_image_refinementParts [OF this] src hero True req
    show ?thesis
      by (auto simp: contents_generation_request)
  next
    case False
    with ps have "ps = initialParts e s hero"
      by (auto simp: composeParts_def split: option.splits if_splits)
    with hero False req show ?thesis
      by (simp add: contents_generation_request filter_is_image_initialParts)
  qed
qed

theorem generation_request_image_segments_witness:
  "generation_request (initialParts example_env example_state example_hero)
     \<in> set (snd (handleGenerate example_globals example_env example_state)) \<and>
   filter is_image (initialParts example_env example_state example_hero) =
     [InlineData \<lparr>data = Some ''iVBORw=='', mimeType = Some ''image/png''\<rparr>,
      InlineData \<lparr>data = Some ''iVBORw=='', mimeType = Some ''image/jpeg''\<rparr>] \<and>
   (\<exists>request.
      request \<in> set (snd (handleGenerate example_globals example_env example_refinement)) \<and>
      filter is_image (contents request) =
        [InlineData \<lparr>data = Some ''iVBORw=='', mimeType = Some ''image/png''\<rparr>,
         InlineData \<lparr>data = Some ''iVBORw=='', mimeType = Some ''image/jpeg''\<rparr>,
         InlineData \<lparr>data = Some ''iVBORw=='', mimeType = Some ''image/png''\<rparr>])"
proof -
  have run: "generation_request (initialParts example_env example_state example_hero)
     \<in> set (snd (handleGenerate example_globals example_env example_state))"
    by (simp add: example_fresh_run)
  from generation_request_image_segments [OF run]
  have fresh: "filter is_image (initialParts example_env example_state example_hero) =
     [InlineData \<lparr>data = Some ''iVBORw=='', mimeType = Some ''image/png''\<rparr>,
      InlineData \<lparr>data = Some ''iVBORw=='', mimeType = Some ''image/jpeg''\<rparr>]"
    by (simp add: example_state_def contents_generation_request example_images)
  define request where "request = generation_request
        (case refinementParts example_env example_refinement example_hero example_prior of
           Inr ps \<Rightarrow> ps | Inl err \<Rightarrow> [])"
  have run': "request \<in> set (snd (handleGenerate example_globals example_env example_refinement))"
    by (simp add: example_refinement_run request_def)
  have prior: "fileToGenerativePart example_env
          (new_File b ''previous_lookbook.png'' ''image/png'') =
        InlineData \<lparr>data = Some ''iVBORw=='', mimeType = Some ''image/png''\<rparr>" for b
    by (simp add: fileToGenerativePart_def example_env_simps new_File_def)
  have "filter is_image (contents request) =
       [InlineData \<lparr>data = Some ''iVBORw=='', mimeType = Some ''image/png''\<rparr>,
        InlineData \<lparr>data = Some ''iVBORw=='', mimeType = Some ''image/jpeg''\<rparr>,
        InlineData \<lparr>data = Some ''iVBORw=='', mimeType = Some ''image/png''\<rparr>]"
    using generation_request_image_segments [OF run']
    by (auto simp: example_refinement_def example_state_def example_prior_def example_images
          example_env_simps prior)
  with run' have "\<exists>request.
      request \<in> set (snd (handleGenerate example_globals example_env example_refinement)) \<and>
      filter is_image (contents request) =
        [InlineData \<lparr>data = Some ''iVBORw=='', mimeType = Some ''image/png''\<rparr>,
         InlineData \<lparr>data = Some ''iVBORw=='', mimeType = Some ''image/jpeg''\<rparr>,
         InlineData \<lparr>data = Some ''iVBORw=='', mimeType = Some ''image/png''\<rparr>]"
    by blast
  with run fresh show ?thesis by blast
qed

text \<open>
  Claim C3, with the heading texts the code pushes. In a refinement whose dimension read
  and fetch succeed, the one submitted request has this part list, in this order: the
  editing-mode instruction, which is the active system prompt followed by the editing
  text with the decoded width and height printed in it as \<open>width x height\<close>; a
  section heading and the hero heading; the hero item's image; if an inspiration photo
  is held, its heading and its image; one text with the brief heading and the quoted
  brief, or the quoted default sentence when the brief is empty; two headings; the prior
  result as an image part, read from a file that holds the bytes and the type of the
  fetched blob; the final action directive.
\<close>

theorem refinement_segments_with_headings:
  assumes "ai g = Some client" and "heroItem s = Some hero"
    and "generatedImage s = Some src" and "src \<noteq> []"
    and "getImageDimensions e src = Some (width, height)"
    and "fetch e src = Inr b"
  shows \<open>map contents (snd (handleGenerate g e s)) =
     [[Text (activeSystemPrompt s @ editingPrompt_before @
             show_nat width @ ''x'' @ show_nat height @ editingPrompt_after),
       Text ''\<newline>\<newline>---\<newline>\<newline>**CREATIVE DIRECTION FOR REFINEMENT**'',
       Text ''\<newline>\<newline>**INPUT: HERO ITEM REFERENCE**'',
       InlineData \<lparr>data = index (split CHR '','' (readAsDataURL e hero)) 1,
                   mimeType = Some (file_type hero)\<rparr>] @
      (case inspirationPhoto s of
         None \<Rightarrow> []
       | Some f \<Rightarrow>
           [Text ''\<newline>\<newline>**INPUT: AESTHETIC INSPIRATION PHOTO**'',
            InlineData \<lparr>data = index (split CHR '','' (readAsDataURL e f)) 1,
                        mimeType = Some (file_type f)\<rparr>]) @
      [Text (''\<newline>\<newline>**INPUT: CREATIVE BRIEF**\<newline>"'' @
             (if stylePrompt s = [] then ''Make a subtle improvement to the overall aesthetic.''
              else stylePrompt s) @ ''"''),
       Text ''\<newline>\<newline>---\<newline>\<newline>**IMAGE TO BE EDITED**'',
       Text ''\<newline>\<newline>**INPUT: IMAGE TO EDIT**'',
       InlineData
         \<lparr>data = index (split CHR '',''
                   (readAsDataURL e
                      \<lparr>file_name = ''previous_lookbook.png'', file_type = blob_type b,
                       file_bytes = blob_bytes b\<rparr>)) 1,
          mimeType = Some (blob_type b)\<rparr>,
       Text ''\<newline>\<newline>---\<newline>\<newline>**ACTION: Generate the refined image now based on the new creative direction and the image to be edited.**'']]\<close>
proof -
  have "composeParts e s hero = refinementParts e s hero src"
    using assms by (simp add: composeParts_refinement)
  also have "\<dots> = Inr (refinementPushes e s hero width height
                (new_File b ''previous_lookbook.png'' (blob_type b)))"
    using assms by (simp add: refinementParts_def)
  finally have "snd (handleGenerate g e s) =
      [generation_request (refinementPushes e s hero width height
         (new_File b ''previous_lookbook.png'' (blob_type b)))]"
    by (rule handleGenerate_submits [OF assms(1,2)])
  then show ?thesis
    by (simp add: generation_request_def refinementPushes_def inspirationParts_def
          fileToGenerativePart_def new_File_def editingPrompt_def or_else_def
          defaultRefinePrompt_def split: option.split)
qed

theorem refinement_segments_with_headings_witness:
  \<open>ai example_globals = Some (GoogleGenAI (Some ''key'')) \<and>
   heroItem example_refinement = Some example_hero \<and>
   generatedImage example_refinement = Some example_prior \<and> example_prior \<noteq> [] \<and>
   getImageDimensions example_env example_prior = Some (1024, 768) \<and>
   fetch example_env example_prior = Inr \<lparr>blob_type = ''image/png'', blob_bytes = [65, 66, 67]\<rparr> \<and>
   map contents (snd (handleGenerate example_globals example_env example_refinement)) =
     [[Text (MODEL_SHOT_SYSTEM_PROMPT @ editingPrompt_before @ ''1024x768'' @ editingPrompt_after),
       Text ''\<newline>\<newline>---\<newline>\<newline>**CREATIVE DIRECTION FOR REFINEMENT**'',
       Text ''\<newline>\<newline>**INPUT: HERO ITEM REFERENCE**'',
       InlineData \<lparr>data = Some ''iVBORw=='', mimeType = Some ''image/png''\<rparr>,
       Text ''\<newline>\<newline>**INPUT: AESTHETIC INSPIRATION PHOTO**'',
       InlineData \<lparr>data = Some ''iVBORw=='', mimeType = Some ''image/jpeg''\<rparr>,
       Text ''\<newline>\<newline>**INPUT: CREATIVE BRIEF**\<newline>"Make a subtle improvement to the overall aesthetic."'',
       Text ''\<newline>\<newline>---\<newline>\<newline>**IMAGE TO BE EDITED**'',
       Text ''\<newline>\<newline>**INPUT: IMAGE TO EDIT**'',
       InlineData \<lparr>data = Some ''iVBORw=='', mimeType = Some ''image/png''\<rparr>,
       Text ''\<newline>\<newline>---\<newline>\<newline>**ACTION: Generate the refined image now based on the new creative direction and the image to be edited.**'']]\<close>
proof -
  have hyps: "ai example_globals = Some (GoogleGenAI (Some ''key''))"
    "heroItem example_refinement = Some example_hero"
    "generatedImage example_refinement = Some example_prior" "example_prior \<noteq> []"
    "getImageDimensions example_env example_prior = Some (1024, 768)"
    "fetch example_env example_prior = Inr \<lparr>blob_type = ''image/png'', blob_bytes = [65, 66, 67]\<rparr>"
    by (simp_all add: example_globals_def example_refinement_def example_state_def
          example_prior_def example_env_simps)
  have sys: "activeSystemPrompt example_refinement = MODEL_SHOT_SYSTEM_PROMPT"
    by (simp add: activeSystemPrompt_def isProductShot_def example_refinement_def
          example_state_def accessoryCategories_def)
  have more: "inspirationPhoto example_refinement = Some example_inspiration"
    "stylePrompt example_refinement = []"
    by (simp_all add: example_refinement_def example_state_def)
  have files: "file_type example_hero = ''image/png''"
    "file_type example_inspiration = ''image/jpeg''"
    by (simp_all add: example_hero_def example_inspiration_def)
  from refinement_segments_with_headings [OF hyps] hyps show ?thesis
    by (simp add: sys more files example_env_simps show_nat_examples)
qed

text \<open>
  Claim C3 as stated lists six segments. With an inspiration photo held the request has
  eleven parts, and its second part is a heading text, not the hero item's image.
\<close>

theorem refinement_segments_counterexample:
  "map (length \<circ> contents)
     (snd (handleGenerate example_globals example_env example_refinement)) = [11] \<and>
   map (map is_image \<circ> contents)
     (snd (handleGenerate example_globals example_env example_refinement)) =
     [[False, False, False, True, False, True, False, False, False, True, False]] \<and>
   map (map is_image \<circ> contents)
     (snd (handleGenerate example_globals example_env example_refinement)) \<noteq>
     [[False, True, True, False, True, False]]"
proof -
  have "snd (handleGenerate example_globals example_env example_refinement) =
      [generation_request (refinementPushes example_env example_refinement example_hero 1024 768
         (new_File \<lparr>blob_type = ''image/png'', blob_bytes = [65, 66, 67]\<rparr>
            ''previous_lookbook.png'' ''image/png''))]"
    by (simp add: example_refinement_run refinementParts_def example_env_simps)
  then show ?thesis
    by (simp add: generation_request_def refinementPushes_def inspirationParts_def
          example_refinement_def example_state_def fileToGenerativePart_def)
qed











section \<open>Start-up failure and classification failure\<close>

text \<open>
  Claim C7, for a constructor that throws. When the client's constructor throws at
  start-up, every call of \<open>handleGenerate\<close>, in any state and whatever the
  environment would answer, ends with the configuration message as the error, loading
  off, and no request submitted.
\<close>

theorem missing_credential_fails_closed:
  assumes "new_GoogleGenAI API_KEY = Inl err"
  shows \<open>handleGenerate (startup new_GoogleGenAI API_KEY) e s =
     (s\<lparr>error := Some ''The AI Alchemist is not configured correctly. Please contact the administrator to resolve this issue.'',
        isLoading := False\<rparr>, [])\<close>
  using assms by (simp add: startup_def handleGenerate_def)

theorem missing_credential_fails_closed_witness:
  \<open>(case (None :: string option) of
      None \<Rightarrow> Inl (Error ''An API Key must be set when running in a browser'')
    | Some k \<Rightarrow> Inr (GoogleGenAI (Some k))) =
     Inl (Error ''An API Key must be set when running in a browser'') \<and>
   handleGenerate
     (startup (\<lambda>key. case key of
                  None \<Rightarrow> Inl (Error ''An API Key must be set when running in a browser'')
                | Some k \<Rightarrow> Inr (GoogleGenAI (Some k))) None)
     example_env example_state =
     (example_state\<lparr>error := Some ''The AI Alchemist is not configured correctly. Please contact the administrator to resolve this issue.'',
        isLoading := False\<rparr>, [])\<close>
  using missing_credential_fails_closed
    [of "\<lambda>key. case key of
                  None \<Rightarrow> Inl (Error ''An API Key must be set when running in a browser'')
                | Some k \<Rightarrow> Inr (GoogleGenAI (Some k))" None
        "Error ''An API Key must be set when running in a browser''" example_env example_state]
  by simp

text \<open>
  Claim C7 as stated also covers a key that is present and invalid. The program does not
  check the key: when the constructor accepts it, a generation composes its parts and
  submits a request, and the error shown is the one the service answers with.
\<close>

theorem accepted_key_submits_request:
  \<open>ai (startup example_constructor (Some ''not-a-valid-key'')) =
     Some (GoogleGenAI (Some ''not-a-valid-key'')) \<and>
   snd (handleGenerate (startup example_constructor (Some ''not-a-valid-key''))
          rejecting_env example_state) =
     [generation_request (initialParts rejecting_env example_state example_hero)] \<and>
   error (fst (handleGenerate (startup example_constructor (Some ''not-a-valid-key''))
                 rejecting_env example_state)) =
     Some ''API key not valid. Please pass a valid API key.'' \<and>
   error (fst (handleGenerate (startup example_constructor (Some ''not-a-valid-key''))
                 rejecting_env example_state)) \<noteq>
     Some ''The AI Alchemist is not configured correctly. Please contact the administrator to resolve this issue.''\<close>
proof -
  have client: "startup example_constructor (Some ''not-a-valid-key'') =
      \<lparr>ai = Some (GoogleGenAI (Some ''not-a-valid-key'')), apiKeyError = None\<rparr>"
    by (simp add: startup_def example_constructor_def)
  have call: "generateContent rejecting_env request =
      Inl (Error ''API key not valid. Please pass a valid API key.'')" for request
    by (simp add: rejecting_env_def)
  have run: "handleGenerate (startup example_constructor (Some ''not-a-valid-key''))
        rejecting_env example_state =
      (example_state\<lparr>error := Some ''API key not valid. Please pass a valid API key.'',
         isLoading := False\<rparr>,
       [generation_request (initialParts rejecting_env example_state example_hero)])"
    unfolding client
    by (simp add: handleGenerate_def composeParts_def example_state_def call
          generation_failed_def catch_message_def)
  show ?thesis
    unfolding run by (simp add: client)
qed

lemma render_output_cong:
  assumes "generatedImage s' = generatedImage s" and "error s' = error s"
  shows "render_output s' = render_output s"
  using assms by (simp add: render_output_def split: option.split)

text \<open>
  Claim C5. When the classification call throws, the item category becomes \<open>Other\<close>
  and the error state is the one held before: nothing new is shown in the output panel.
\<close>

theorem classification_failure_gives_Other:
  assumes "ai g = Some client"
    and "generateContent e (classification_request e f) = Inl err"
  shows "fst (identifyItemCategory g e s f) =
           s\<lparr>itemCategory := Some ''Other'', isIdentifying := False, shotType := Model\<rparr> \<and>
         itemCategory (fst (identifyItemCategory g e s f)) = Some ''Other'' \<and>
         error (fst (identifyItemCategory g e s f)) = error s \<and>
         render_output (fst (identifyItemCategory g e s f)) = render_output s"
proof -
  from assms have run: "fst (identifyItemCategory g e s f) =
           s\<lparr>itemCategory := Some ''Other'', isIdentifying := False, shotType := Model\<rparr>"
    by (simp add: identifyItemCategory_def Let_def)
  have "render_output (fst (identifyItemCategory g e s f)) = render_output s"
    by (rule render_output_cong) (simp_all add: run)
  with run show ?thesis by simp
qed

theorem classification_failure_gives_Other_witness:
  "ai example_globals = Some (GoogleGenAI (Some ''key'')) \<and>
   generateContent (example_env\<lparr>generateContent := \<lambda>request. Inl (Error ''503'')\<rparr>)
     (classification_request (example_env\<lparr>generateContent := \<lambda>request. Inl (Error ''503'')\<rparr>)
        example_hero) = Inl (Error ''503'') \<and>
   itemCategory (fst (identifyItemCategory example_globals
     (example_env\<lparr>generateContent := \<lambda>request. Inl (Error ''503'')\<rparr>) example_state example_hero))
     = Some ''Other'' \<and>
   error (fst (identifyItemCategory example_globals
     (example_env\<lparr>generateContent := \<lambda>request. Inl (Error ''503'')\<rparr>) example_state example_hero))
     = None"
proof -
  have g: "ai example_globals = Some (GoogleGenAI (Some ''key''))"
    by (simp add: example_globals_def)
  have call: "generateContent (example_env\<lparr>generateContent := \<lambda>request. Inl (Error ''503'')\<rparr>)
     (classification_request (example_env\<lparr>generateContent := \<lambda>request. Inl (Error ''503'')\<rparr>)
        example_hero) = Inl (Error ''503'')"
    by simp
  have "error example_state = None"
    by (simp add: example_state_def)
  with classification_failure_gives_Other [OF g call, of example_state] g call
  show ?thesis by simp
qed

section \<open>Failures of a generation\<close>

text \<open>
  Two ways a generation fails after its checks, and what the output panel shows then.
  The handler stores the message in the error state; the panel renders the error state
  only when no generated image is held. The part that the search of the response
  returns is always an image part, so the handler's test of it cannot fail.
\<close>

lemma findImagePart_is_image:
  assumes "findImagePart e response = Inr (Some p)"
  shows "is_image p"
  using assms
  by (auto simp: findImagePart_def find_Some_iff split: option.splits)

lemma failed_state:
  "generation_failed (s\<lparr>isLoading := True, error := None\<rparr>) err =
     s\<lparr>error := Some (catch_message err), isLoading := False\<rparr>"
  by (simp add: generation_failed_def)

lemma text_only_no_image: "findImagePart e text_only_response = Inr None"
  by (simp add: findImagePart_def text_only_response_def)

lemma handleGenerate_dimension_failure:
  assumes "ai g = Some client" and "heroItem s = Some hero"
    and "generatedImage s = Some src" and "src \<noteq> []"
    and "getImageDimensions e src = None"
  shows "handleGenerate g e s =
           (s\<lparr>error := Some ''An unknown error occurred.'', isLoading := False\<rparr>, [])"
proof -
  have "composeParts e s hero = Inl NonError"
    using assms by (simp add: composeParts_def refinementParts_def)
  with assms(1,2) show ?thesis
    by (simp add: handleGenerate_def Let_def failed_state catch_message_def)
qed

lemma handleGenerate_no_image:
  assumes "ai g = Some client" and "heroItem s = Some hero"
    and "composeParts e s hero = Inr ps"
    and "generateContent e (generation_request ps) = Inr response"
    and "findImagePart e response = Inr None"
  shows \<open>handleGenerate g e s =
           (s\<lparr>error := Some ''The Alchemist couldn't generate an image. Try refining your inputs.'',
              isLoading := False\<rparr>,
            [generation_request ps])\<close>
  using assms
  by (simp add: handleGenerate_def Let_def failed_state catch_message_def)

lemma render_output_image:
  assumes "generatedImage s = Some src" and "src \<noteq> []"
  shows "render_output s = OutputImage src"
  using assms by (simp add: render_output_def)

text \<open>
  Claim C8. A refinement whose dimension read fails: the handler stores
  \<open>An unknown error occurred.\<close> in the error state and submits no request. The
  generated image is still held, so the output panel keeps rendering the prior image and
  the stored message is not shown.
\<close>

theorem refinement_dimension_failure_not_displayed:
  assumes "ai g = Some client" and "heroItem s = Some hero"
    and "generatedImage s = Some src" and "src \<noteq> []"
    and "getImageDimensions e src = None"
  shows "handleGenerate g e s =
           (s\<lparr>error := Some ''An unknown error occurred.'', isLoading := False\<rparr>, []) \<and>
         render_output (fst (handleGenerate g e s)) = OutputImage src"
proof -
  note run = handleGenerate_dimension_failure [OF assms]
  have "render_output (fst (handleGenerate g e s)) = OutputImage src"
    unfolding run using assms(3,4) by (simp add: render_output_image)
  with run show ?thesis by simp
qed

theorem refinement_dimension_failure_not_displayed_witness:
  "ai example_globals = Some (GoogleGenAI (Some ''key'')) \<and>
   heroItem example_refinement = Some example_hero \<and>
   generatedImage example_refinement = Some example_prior \<and> example_prior \<noteq> [] \<and>
   getImageDimensions (example_env\<lparr>getImageDimensions := \<lambda>src. None\<rparr>) example_prior = None \<and>
   handleGenerate example_globals (example_env\<lparr>getImageDimensions := \<lambda>src. None\<rparr>)
     example_refinement =
     (example_refinement\<lparr>error := Some ''An unknown error occurred.'', isLoading := False\<rparr>, []) \<and>
   render_output
     (fst (handleGenerate example_globals (example_env\<lparr>getImageDimensions := \<lambda>src. None\<rparr>)
        example_refinement)) = OutputImage ''data:image/png;base64,QUJD''"
proof -
  have hyps: "ai example_globals = Some (GoogleGenAI (Some ''key''))"
    "heroItem example_refinement = Some example_hero"
    "generatedImage example_refinement = Some example_prior" "example_prior \<noteq> []"
    "getImageDimensions (example_env\<lparr>getImageDimensions := \<lambda>src. None\<rparr>) example_prior = None"
    by (simp_all add: example_globals_def example_refinement_def example_state_def
          example_prior_def)
  note code = refinement_dimension_failure_not_displayed [OF hyps]
  from code [THEN conjunct1] code [THEN conjunct2] hyps show ?thesis
    by (simp add: example_prior_def)
qed

text \<open>
  Claim C6. A response from which no image part is found: the handler stores the failure
  message in the error state, keeps the generated image held before, and has submitted
  the one request. The output panel shows the message in a fresh generation; in a
  refinement it keeps rendering the prior image and the message is not shown.
\<close>

theorem missing_image_not_displayed_in_refinement:
  assumes "ai g = Some client" and "heroItem s = Some hero"
    and "composeParts e s hero = Inr ps"
    and "generateContent e (generation_request ps) = Inr response"
    and "findImagePart e response = Inr None"
  shows \<open>handleGenerate g e s =
           (s\<lparr>error := Some ''The Alchemist couldn't generate an image. Try refining your inputs.'',
              isLoading := False\<rparr>,
            [generation_request ps]) \<and>
         render_output (fst (handleGenerate g e s)) =
           (case generatedImage s of
              None \<Rightarrow>
                ErrorMessage ''The Alchemist couldn't generate an image. Try refining your inputs.''
            | Some src \<Rightarrow>
                if src \<noteq> [] then OutputImage src
                else ErrorMessage ''The Alchemist couldn't generate an image. Try refining your inputs.'')\<close>
proof -
  note run = handleGenerate_no_image [OF assms]
  have \<open>render_output (fst (handleGenerate g e s)) =
           (case generatedImage s of
              None \<Rightarrow>
                ErrorMessage ''The Alchemist couldn't generate an image. Try refining your inputs.''
            | Some src \<Rightarrow>
                if src \<noteq> [] then OutputImage src
                else ErrorMessage ''The Alchemist couldn't generate an image. Try refining your inputs.'')\<close>
    unfolding run by (simp add: render_output_def split: option.split)
  with run show ?thesis by simp
qed

theorem missing_image_not_displayed_in_refinement_witness:
  \<open>ai example_globals = Some (GoogleGenAI (Some ''key'')) \<and>
   heroItem example_refinement = Some example_hero \<and>
   findImagePart (example_env\<lparr>generateContent := \<lambda>request. Inr text_only_response\<rparr>)
     text_only_response = Inr None \<and>
   fst (handleGenerate example_globals
          (example_env\<lparr>generateContent := \<lambda>request. Inr text_only_response\<rparr>)
          example_refinement) =
     example_refinement\<lparr>error := Some ''The Alchemist couldn't generate an image. Try refining your inputs.'',
        isLoading := False\<rparr> \<and>
   render_output
     (fst (handleGenerate example_globals
             (example_env\<lparr>generateContent := \<lambda>request. Inr text_only_response\<rparr>)
             example_refinement)) = OutputImage ''data:image/png;base64,QUJD'' \<and>
   render_output
     (fst (handleGenerate example_globals
             (example_env\<lparr>generateContent := \<lambda>request. Inr text_only_response\<rparr>)
             example_state)) =
     ErrorMessage ''The Alchemist couldn't generate an image. Try refining your inputs.''\<close>
proof -
  define e where "e = example_env\<lparr>generateContent := \<lambda>request. Inr text_only_response\<rparr>"
  define ps where "ps = refinementPushes e example_refinement example_hero 1024 768
       (new_File \<lparr>blob_type = ''image/png'', blob_bytes = [65, 66, 67]\<rparr>
          ''previous_lookbook.png'' ''image/png'')"
  have g: "ai example_globals = Some (GoogleGenAI (Some ''key''))"
    by (simp add: example_globals_def)
  have hero: "heroItem example_refinement = Some example_hero"
    "heroItem example_state = Some example_hero"
    by (simp_all add: example_refinement_def example_state_def)
  have refine: "composeParts e example_refinement example_hero = Inr ps"
    by (simp add: composeParts_def refinementParts_def example_refinement_def example_prior_def
          e_def ps_def example_env_simps)
  have fresh: "composeParts e example_state example_hero =
      Inr (initialParts e example_state example_hero)"
    by (simp add: composeParts_def example_state_def)
  have call: "generateContent e (generation_request qs) = Inr text_only_response" for qs
    by (simp add: e_def)
  have none: "findImagePart e text_only_response = Inr None"
    by (rule text_only_no_image)
  have held: "generatedImage example_refinement = Some ''data:image/png;base64,QUJD''"
    "generatedImage example_state = None"
    by (simp_all add: example_refinement_def example_state_def example_prior_def)
  note refined = missing_image_not_displayed_in_refinement [OF g hero(1) refine call none]
  note created = missing_image_not_displayed_in_refinement [OF g hero(2) fresh call none]
  from refined [THEN conjunct1] refined [THEN conjunct2]
    created [THEN conjunct1] created [THEN conjunct2] g hero none
  show ?thesis
    unfolding e_def [symmetric] by (simp add: held)
qed

end
